theory Spec2Isabelle
  imports Complex_Main "HOL-Library.Sublist" "HOL-Library.AList"
begin

section \<open>Buffers\<close>

text \<open>
  A Node.js \<open>Buffer\<close> is a sequence of bytes. A byte is a \<^typ>\<open>char\<close> (the 256 values
  of HOL's character type), so that the ASCII text of the multipart framing can be written
  as string literals. \<open>Buffer.from(str)\<close> and \<open>buf.toString()\<close> are the identity on ASCII
  text, which is all the framing and the regular expressions of the source look at: the
  UTF-8 decoding of \<open>toString()\<close> neither creates nor removes an ASCII character, so
  the regular expressions are matched on the bytes.
\<close>

type_synonym bytes = "char list"

definition CR :: char where
  "CR = CHR 0x0D"

definition LF :: char where
  "LF = CHR 0x0A"

definition CRLF :: bytes where
  "CRLF = [CR, LF]"

text \<open>The header/body delimiter \<open>Buffer.from("\r\n\r\n")\<close>.\<close>

definition CRLFCRLF :: bytes where
  "CRLFCRLF = [CR, LF, CR, LF]"

text \<open>
  \<open>searchFrom needle rest i\<close>: the first index, counted from \<open>i\<close> for the head of
  \<open>rest\<close>, at which \<open>needle\<close> starts.
\<close>

fun searchFrom :: "bytes \<Rightarrow> bytes \<Rightarrow> nat \<Rightarrow> nat option" where
  "searchFrom needle [] i = (if needle = [] then Some i else None)"
| "searchFrom needle (x # xs) i =
     (if prefix needle (x # xs) then Some i else searchFrom needle xs (Suc i))"

text \<open>
  \<open>buf.indexOf(value, byteOffset)\<close> for a Buffer \<open>value\<close>: the index of the first occurrence
  at or after \<open>byteOffset\<close>, or \<open>-1\<close>. A negative offset counts from the end of the buffer;
  an empty \<open>value\<close> is found at the offset, or at the length when the offset is beyond it.
\<close>

definition indexOf :: "bytes \<Rightarrow> bytes \<Rightarrow> int \<Rightarrow> int" where
  "indexOf buffer needle byteOffset =
     (let len = int (length buffer);
          off = (if byteOffset < 0 then max 0 (len + byteOffset) else byteOffset)
      in if needle = [] then min off len
         else (case searchFrom needle (drop (nat off) buffer) (nat off) of
                 None \<Rightarrow> - 1
               | Some i \<Rightarrow> int i))"

text \<open>
  \<open>buf.slice(start, end)\<close>: negative indices count from the end, both are clamped to the
  buffer, and an end at or before the start gives the empty buffer.
\<close>

definition slice :: "bytes \<Rightarrow> int \<Rightarrow> int \<Rightarrow> bytes" where
  "slice buffer start end =
     (let len = int (length buffer);
          s = (if start < 0 then max 0 (len + start) else min start len);
          e = (if end < 0 then max 0 (len + end) else min end len)
      in if e \<le> s then [] else take (nat (e - s)) (drop (nat s) buffer))"

section \<open>The multipart decoder\<close>

text \<open>
  \<open>headers.match(/Content-ID: <([^>]+)>/)\<close>: the leftmost position at which the literal
  \<open>Content-ID: <\<close> is followed by a non-empty run of characters other than \<open>>\<close> and then
  by \<open>>\<close>; the result is the run (capture group 1), or \<open>None\<close> for JavaScript's
  \<open>null\<close>. The run is greedy, and a shorter run would be followed by a character that is
  not \<open>>\<close>, so the maximal run decides each position.
\<close>

fun contentIdMatch :: "string \<Rightarrow> string option" where
  "contentIdMatch [] = None"
| "contentIdMatch (c # cs) =
     (if prefix ''Content-ID: <'' (c # cs) then
        (let rest = drop (length ''Content-ID: <'') (c # cs);
             run = takeWhile (\<lambda>x. x \<noteq> CHR ''>'') rest
         in if run \<noteq> [] \<and> length run < length rest then Some run
            else contentIdMatch cs)
      else contentIdMatch cs)"

text \<open>
  \<open>contentType.match(/boundary=([^;]+)/)\<close>: the leftmost \<open>boundary=\<close> followed by at least
  one character other than \<open>;\<close>; the capture is the maximal such run.
\<close>

fun boundaryMatch :: "string \<Rightarrow> string option" where
  "boundaryMatch [] = None"
| "boundaryMatch (c # cs) =
     (if prefix ''boundary='' (c # cs) then
        (let run = takeWhile (\<lambda>x. x \<noteq> CHR '';'') (drop (length ''boundary='') (c # cs))
         in if run \<noteq> [] then Some run else boundaryMatch cs)
      else boundaryMatch cs)"

text \<open>
  What a call of the pipeline can throw: the \<open>Error("Authentication failed with Sentinel
  Hub")\<close> of \<open>getAccessToken\<close>, the error axios raises for a failed imagery request, and
  a \<open>TypeError\<close>: of reading a property of \<open>undefined\<close> or \<open>null\<close>, and of assigning
  to a property that is inherited with a getter only. The source defines no other error.
\<close>

datatype error = AuthenticationFailed | RequestFailed | TypeError

text \<open>
  \<open>extractBoundary(contentType)\<close>. The header is \<open>None\<close> when the response has no
  content-type header, and \<open>.match\<close> on \<open>undefined\<close> throws. The result \<open>Inr None\<close> is
  the source's \<open>null\<close>.
\<close>

definition extractBoundary :: "string option \<Rightarrow> error + string option" where
  "extractBoundary contentType =
     (case contentType of
        None \<Rightarrow> Inl TypeError
      | Some ct \<Rightarrow> Inr (boundaryMatch ct))"

text \<open>The template literal \<open>${boundary}\<close>: \<open>null\<close> is rendered as the text \<open>null\<close>.\<close>

definition interpolate :: "string option \<Rightarrow> string" where
  "interpolate boundary = (case boundary of None \<Rightarrow> ''null'' | Some b \<Rightarrow> b)"

subsection \<open>Property names\<close>

text \<open>
  The content-ID is cut out of \<open>headers\<close>, the UTF-8 decoding of the header bytes, and is
  a JavaScript string. A string is represented by its UTF-8 encoding, so that two names are
  equal exactly when their representations are. The runs the regular expression captures
  are delimited by ASCII bytes, which end every byte sequence of the decoder, so the name
  is the decoding of the captured bytes: well-formed sequences stand as they are, and each
  maximal ill-formed subsequence becomes U+FFFD (the bytes EF BF BD), as in the WHATWG
  decoder. On ASCII bytes this is the identity.
\<close>

definition REPLACEMENT :: bytes where
  "REPLACEMENT = [CHR 0xEF, CHR 0xBF, CHR 0xBD]"

definition between :: "char \<Rightarrow> nat \<Rightarrow> nat \<Rightarrow> bool" where
  "between c lo hi = (lo \<le> of_char c \<and> (of_char c :: nat) \<le> hi)"

text \<open>The range of the second byte that may follow the lead byte of a longer sequence.\<close>

definition secondLo :: "char \<Rightarrow> nat" where
  "secondLo b = (if b = CHR 0xE0 then 0xA0 else if b = CHR 0xF0 then 0x90 else 0x80)"

definition secondHi :: "char \<Rightarrow> nat" where
  "secondHi b = (if b = CHR 0xED then 0x9F else if b = CHR 0xF4 then 0x8F else 0xBF)"

fun utf8Text :: "bytes \<Rightarrow> bytes" where
  "utf8Text [] = []"
| "utf8Text (b # bs) =
     (if between b 0x00 0x7F then b # utf8Text bs
      else if between b 0xC2 0xDF then
        (case bs of
           [] \<Rightarrow> REPLACEMENT
         | c # cs \<Rightarrow>
             if between c 0x80 0xBF then b # c # utf8Text cs else REPLACEMENT @ utf8Text bs)
      else if between b 0xE0 0xEF then
        (case bs of
           [] \<Rightarrow> REPLACEMENT
         | c # cs \<Rightarrow>
             if between c (secondLo b) (secondHi b) then
               (case cs of
                  [] \<Rightarrow> REPLACEMENT
                | d # ds \<Rightarrow>
                    if between d 0x80 0xBF then b # c # d # utf8Text ds
                    else REPLACEMENT @ utf8Text cs)
             else REPLACEMENT @ utf8Text bs)
      else if between b 0xF0 0xF4 then
        (case bs of
           [] \<Rightarrow> REPLACEMENT
         | c # cs \<Rightarrow>
             if between c (secondLo b) (secondHi b) then
               (case cs of
                  [] \<Rightarrow> REPLACEMENT
                | d # ds \<Rightarrow>
                    if between d 0x80 0xBF then
                      (case ds of
                         [] \<Rightarrow> REPLACEMENT
                       | e # es \<Rightarrow>
                           if between e 0x80 0xBF then b # c # d # e # utf8Text es
                           else REPLACEMENT @ utf8Text ds)
                    else REPLACEMENT @ utf8Text cs)
             else REPLACEMENT @ utf8Text bs)
      else REPLACEMENT @ utf8Text bs)"

subsection \<open>The object \<open>parts\<close>\<close>

text \<open>
  \<open>parts\<close> starts as \<open>{}\<close>. Its own properties are a map from names to body bytes.
  \<open>parts[name] = content\<close> does not always define an own property:
  \<^item> for the name \<open>__proto__\<close> the setter inherited from \<open>Object.prototype\<close> runs, and
    the Buffer \<open>content\<close> becomes the prototype of \<open>parts\<close>; no own property appears;
  \<^item> a name that is already an own property is overwritten;
  \<^item> while the prototype is still \<open>Object.prototype\<close>, every other name is defined (all
    other properties of \<open>Object.prototype\<close> are writable data properties);
  \<^item> once a Buffer is the prototype, what the assignment of a new name does is decided by
    the properties \<open>parts\<close> inherits from that Buffer: the method is in a class body,
    which is strict code, so a name inherited as an accessor without a setter (such as
    \<open>length\<close>) throws a \<open>TypeError\<close>; an index the typed array answers for may be
    left undefined; any other name is defined.
  The last case belongs to the runtime, not to the source; it is the parameter \<open>runtime\<close>
  here, a function of the prototype Buffer and the name. A runtime that writes through to
  the elements of the prototype Buffer is not covered.
\<close>

type_synonym parts = "string \<rightharpoonup> bytes"

datatype assignment = DefinesOwn | LeavesUndefined | ThrowsTypeError

type_synonym runtime = "bytes \<Rightarrow> string \<Rightarrow> assignment"

record partsObject =
  protoBuffer :: "bytes option"
  ownProps :: parts

definition emptyObject :: partsObject where
  "emptyObject = \<lparr>protoBuffer = None, ownProps = Map.empty\<rparr>"

definition assign :: "runtime \<Rightarrow> partsObject \<Rightarrow> string \<Rightarrow> bytes \<Rightarrow> error + partsObject" where
  "assign rt obj name content =
     (if name = ''__proto__'' then Inr (obj\<lparr>protoBuffer := Some content\<rparr>)
      else if name \<in> dom (ownProps obj) then
        Inr (obj\<lparr>ownProps := (ownProps obj)(name \<mapsto> content)\<rparr>)
      else
        (case protoBuffer obj of
           None \<Rightarrow> Inr (obj\<lparr>ownProps := (ownProps obj)(name \<mapsto> content)\<rparr>)
         | Some proto \<Rightarrow>
             (case rt proto name of
                DefinesOwn \<Rightarrow> Inr (obj\<lparr>ownProps := (ownProps obj)(name \<mapsto> content)\<rparr>)
              | LeavesUndefined \<Rightarrow> Inr obj
              | ThrowsTypeError \<Rightarrow> Inl TypeError)))"

subsection \<open>The scan\<close>

text \<open>
  The \<open>while\<close> loop of \<open>parseMultipartResponse\<close>, with the loop variables \<open>pos\<close> and
  \<open>parts\<close> as arguments; \<open>boundaryBuffer\<close> and \<open>end\<close> do not change in the loop. A
  \<open>TypeError\<close> of the assignment ends the loop and the function.
\<close>

function scanParts ::
  "runtime \<Rightarrow> bytes \<Rightarrow> bytes \<Rightarrow> int \<Rightarrow> int \<Rightarrow> partsObject \<Rightarrow> error + partsObject" where
  "scanParts rt buffer boundaryBuffer end pos parts =
     (if pos \<noteq> - 1 \<and> pos < end then
        (let headersEnd = indexOf buffer CRLFCRLF pos in
         if headersEnd = - 1 then Inr parts
         else
           (let headers = slice buffer (pos + int (length boundaryBuffer) + 2) headersEnd;
                assigned =
                  (case contentIdMatch headers of
                     None \<Rightarrow> Inr parts
                   | Some contentId \<Rightarrow>
                       (let nextBoundary = indexOf buffer boundaryBuffer (headersEnd + 4);
                            contentEnd = (if nextBoundary \<noteq> - 1 then nextBoundary - 4 else end - 2);
                            content = slice buffer (headersEnd + 4) contentEnd
                        in assign rt parts (utf8Text contentId) content))
            in case assigned of
                 Inl e \<Rightarrow> Inl e
               | Inr parts' \<Rightarrow>
                   scanParts rt buffer boundaryBuffer end
                     (indexOf buffer boundaryBuffer (headersEnd + 4)) parts'))
      else Inr parts)"
  by pat_completeness auto

lemma searchFrom_bounds:
  "searchFrom needle xs i = Some j \<Longrightarrow> i \<le> j \<and> j + length needle \<le> i + length xs"
proof (induction xs arbitrary: i)
  case Nil
  then show ?case by (simp split: if_splits)
next
  case (Cons x xs)
  show ?case
  proof (cases "prefix needle (x # xs)")
    case True
    then have "length needle \<le> length (x # xs)" by (rule prefix_length_le)
    with True Cons.prems show ?thesis by simp
  next
    case False
    with Cons.prems have "searchFrom needle xs (Suc i) = Some j" by simp
    from Cons.IH [OF this] show ?thesis by simp
  qed
qed

text \<open>A found index lies at or after the offset, and the occurrence fits in the buffer.\<close>

lemma indexOf_range:
  assumes "indexOf buffer needle off \<noteq> - 1"
  shows "(off \<le> indexOf buffer needle off \<or> int (length buffer) \<le> indexOf buffer needle off)
      \<and> 0 \<le> indexOf buffer needle off
      \<and> (indexOf buffer needle off + int (length needle) \<le> int (length buffer) \<or> needle = [])
      \<and> indexOf buffer needle off \<le> int (length buffer)"
proof -
  define eff where "eff = (if off < 0 then max 0 (int (length buffer) + off) else off)"
  have eff: "0 \<le> eff" "off \<le> eff" by (auto simp: eff_def)
  show ?thesis
  proof (cases "needle = []")
    case True
    then have "indexOf buffer needle off = min eff (int (length buffer))"
      by (simp add: indexOf_def eff_def Let_def)
    with eff True show ?thesis by auto
  next
    case False
    then obtain j where j: "searchFrom needle (drop (nat eff) buffer) (nat eff) = Some j"
      and r: "indexOf buffer needle off = int j"
      using assms by (auto simp: indexOf_def eff_def Let_def split: option.splits)
    from searchFrom_bounds [OF j]
    have b: "nat eff \<le> j" "j + length needle \<le> nat eff + (length buffer - nat eff)" by simp_all
    have "nat eff \<le> length buffer"
    proof (rule ccontr)
      assume "\<not> nat eff \<le> length buffer"
      then have "drop (nat eff) buffer = []" by simp
      with j False show False by simp
    qed
    with b eff r show ?thesis by auto
  qed
qed

text \<open>
  The loop ends: each round moves \<open>pos\<close> at least four bytes beyond a delimiter found at
  or after the old \<open>pos\<close>, or sets it to \<open>-1\<close>.
\<close>

termination scanParts
proof (relation "measure (\<lambda>(rt, buffer, boundaryBuffer, end, pos, parts).
          if pos \<noteq> - 1 \<and> pos < end then Suc (nat (int (length buffer) - pos)) else 0)",
       goal_cases)
  case 1
  show ?case by simp
next
  case (2 rt buffer boundaryBuffer "end" pos parts headersEnd headers assigned parts')
  let ?next = "indexOf buffer boundaryBuffer (headersEnd + 4)"
  from 2 have found: "indexOf buffer CRLFCRLF pos \<noteq> - 1"
    and he: "headersEnd = indexOf buffer CRLFCRLF pos"
    by simp_all
  from indexOf_range [OF found] he
  have he_ge: "pos \<le> headersEnd" "0 \<le> headersEnd" "headersEnd + 4 \<le> int (length buffer)"
    by (auto simp: CRLFCRLF_def)
  show ?case
  proof (cases "?next \<noteq> - 1 \<and> ?next < end")
    case False
    with 2 show ?thesis by auto
  next
    case True
    then have "?next \<noteq> - 1" by simp
    from indexOf_range [OF this] he_ge
    have "headersEnd + 4 \<le> ?next" "?next \<le> int (length buffer)" by auto
    with he_ge 2 True show ?thesis by auto
  qed
qed

declare scanParts.simps [simp del]

text \<open>
  \<open>parseMultipartResponse(buffer, boundary)\<close>: the error thrown, or the object returned,
  given by its own properties. (The caller reads the properties \<open>truecolor\<close>, \<open>ndvi\<close>,
  \<open>ndwi\<close> and \<open>scl\<close>, none of which a Buffer in the prototype chain provides.)
\<close>

definition parseMultipartResponse :: "runtime \<Rightarrow> bytes \<Rightarrow> string option \<Rightarrow> error + parts" where
  "parseMultipartResponse rt buffer boundary =
     (let boundaryBuffer = ''--'' @ interpolate boundary;
          endBoundaryBuffer = ''--'' @ interpolate boundary @ ''--'';
          start = 0;
          end0 = indexOf buffer endBoundaryBuffer 0;
          end = (if end0 = - 1 then int (length buffer) else end0);
          pos = indexOf buffer boundaryBuffer start
      in case scanParts rt buffer boundaryBuffer end pos emptyObject of
           Inl e \<Rightarrow> Inl e
         | Inr parts \<Rightarrow> Inr (ownProps parts))"

subsection \<open>Rounds of the scan\<close>











subsection \<open>The standard framing\<close>

text \<open>
  The encoder is not part of the source; it is the synthetic multipart body of the
  round-trip property, written from the standard framing: each part is the delimiter line
  \<open>--boundary\<close>, a Content-ID header, an empty line, the body and a line break; a closed
  body ends with the closing delimiter line \<open>--boundary--\<close>.
\<close>

definition encodePart :: "string \<Rightarrow> string \<times> bytes \<Rightarrow> bytes" where
  "encodePart boundary p =
     ''--'' @ boundary @ CRLF @ ''Content-ID: <'' @ fst p @ ''>'' @ CRLFCRLF @ snd p @ CRLF"

definition encodeOpen :: "string \<Rightarrow> (string \<times> bytes) list \<Rightarrow> bytes" where
  "encodeOpen boundary ps = concat (map (encodePart boundary) ps)"

definition encodeMultipart :: "string \<Rightarrow> (string \<times> bytes) list \<Rightarrow> bytes" where
  "encodeMultipart boundary ps = encodeOpen boundary ps @ ''--'' @ boundary @ ''--'' @ CRLF"

section \<open>The token manager\<close>

text \<open>
  JavaScript numbers are IEEE doubles. The clock and \<open>expires_in\<close> are whole numbers, and
  so are their products and sums before rounding; \<open>roundToDouble\<close> is the rounding of a
  whole number to the nearest double (53 significant bits, ties to even), which leaves
  every number up to \<open>2^53\<close> in magnitude as it is.
\<close>

fun bitLength :: "nat \<Rightarrow> nat" where
  "bitLength n = (if n = 0 then 0 else Suc (bitLength (n div 2)))"

declare bitLength.simps [simp del]

definition roundToDouble :: "int \<Rightarrow> int" where
  "roundToDouble x =
     (let m = nat \<bar>x\<bar> in
      if m \<le> 2 ^ 53 then x
      else
        (let sh = bitLength m - 53;
             q = m div 2 ^ sh;
             r = m mod 2 ^ sh;
             up = (r > 2 ^ (sh - 1) \<or> (r = 2 ^ (sh - 1) \<and> odd q));
             v = int ((if up then q + 1 else q) * 2 ^ sh)
         in if x < 0 then - v else v))"

text \<open>
  \<open>this.tokenExpiry\<close> is \<open>null\<close> after the constructor, and afterwards the number
  \<open>Date.now() + expires_in * 1000\<close>: \<open>NaN\<close> when the response has no \<open>expires_in\<close>,
  an infinity when the product or the sum overflows, and otherwise a whole number of
  milliseconds.
\<close>

datatype expiry =
  ExpiryNull | ExpiryNaN | ExpiryAt int | ExpiryPlusInfinity | ExpiryMinusInfinity

definition overflow :: "int \<Rightarrow> expiry" where
  "overflow v =
     (if v \<ge> 2 ^ 1024 then ExpiryPlusInfinity
      else if v \<le> - (2 ^ 1024) then ExpiryMinusInfinity
      else ExpiryAt v)"

text \<open>\<open>now + seconds * 1000\<close> in double arithmetic: each operation rounds its exact result.\<close>

definition expiryFrom :: "int \<Rightarrow> int \<Rightarrow> expiry" where
  "expiryFrom now seconds =
     (case overflow (roundToDouble (seconds * 1000)) of
        ExpiryAt product \<Rightarrow> overflow (roundToDouble (now + product))
      | other \<Rightarrow> other)"

text \<open>
  \<open>this.token\<close> is \<open>None\<close> for \<open>null\<close> and \<open>undefined\<close>, and a string otherwise.
\<close>

record service =
  token :: "string option"
  tokenExpiry :: expiry

definition initialService :: service where
  "initialService = \<lparr>token = None, tokenExpiry = ExpiryNull\<rparr>"

text \<open>JavaScript truthiness of \<open>this.token\<close>: a string is truthy unless it is empty.\<close>

definition truthy :: "string option \<Rightarrow> bool" where
  "truthy t = (case t of None \<Rightarrow> False | Some s \<Rightarrow> s \<noteq> [])"

text \<open>
  \<open>this.tokenExpiry > now\<close>: \<open>null\<close> is converted to \<open>0\<close>, and every comparison with
  \<open>NaN\<close> is false.
\<close>

definition expiryAfter :: "expiry \<Rightarrow> int \<Rightarrow> bool" where
  "expiryAfter e now =
     (case e of
        ExpiryNull \<Rightarrow> 0 > now
      | ExpiryNaN \<Rightarrow> False
      | ExpiryAt t \<Rightarrow> t > now
      | ExpiryPlusInfinity \<Rightarrow> True
      | ExpiryMinusInfinity \<Rightarrow> False)"

text \<open>
  What \<open>axios.post\<close> to the token endpoint gives: a rejection (a status outside 2xx or a
  network error), or a response whose \<open>data\<close> is \<open>null\<close> or \<open>undefined\<close>
  (\<open>NoData\<close>), or is any other value, of which the call reads the two fields, each
  possibly missing (both are missing in the string of an empty body). \<open>access_token\<close> is
  a string when it is present, and \<open>expires_in\<close> a whole number of seconds.
\<close>

datatype token_data = NoData | Data (access_token: "string option") (expires_in: "int option")

datatype token_response = ExchangeRejected | ExchangeOk token_data

text \<open>
  What one call of \<open>getAccessToken\<close> reads from outside: the clock in the guard, the
  outcome of the exchange, and the clock when the response is stored.
\<close>

record token_env =
  nowCheck :: int
  exchange :: token_response
  nowStore :: int

text \<open>
  What a call does, in order: requests to the two endpoints, and reads and writes of the
  cache with their key.
\<close>

datatype event = TokenExchange | ImageryRequest | CacheRead string | CacheWrite string

text \<open>
  \<open>getAccessToken()\<close>: the result (the token, \<open>None\<close> for \<open>undefined\<close>, or the error
  thrown), the service afterwards, and the events. Reading \<open>access_token\<close> of a \<open>null\<close>
  \<open>data\<close> throws inside the \<open>try\<close>, before either field of the service is assigned.
\<close>

definition getAccessToken ::
  "token_env \<Rightarrow> service \<Rightarrow> (error + string option) \<times> service \<times> event list" where
  "getAccessToken env s =
     (if truthy (token s) \<and> expiryAfter (tokenExpiry s) (nowCheck env) then
        (Inr (token s), s, [])
      else
        (case exchange env of
           ExchangeRejected \<Rightarrow> (Inl AuthenticationFailed, s, [TokenExchange])
         | ExchangeOk NoData \<Rightarrow> (Inl AuthenticationFailed, s, [TokenExchange])
         | ExchangeOk (Data tok lifetime) \<Rightarrow>
             (Inr tok,
              \<lparr>token = tok,
               tokenExpiry =
                 (case lifetime of
                    None \<Rightarrow> ExpiryNaN
                  | Some seconds \<Rightarrow> expiryFrom (nowStore env) seconds)\<rparr>,
              [TokenExchange])))"

definition exchanges :: "event list \<Rightarrow> nat" where
  "exchanges evs = length (filter (\<lambda>e. e = TokenExchange) evs)"

section \<open>The result cache\<close>

text \<open>
  The module-level \<open>cache\<close> is a JavaScript \<open>Map\<close> from the key string to
  \<open>{ timestamp, data }\<close>: an association list in insertion order whose keys are distinct.
  \<open>cache.get\<close> is \<^const>\<open>map_of\<close>, \<open>cache.set\<close> is \<^const>\<open>AList.update\<close> (the value is
  replaced in place, a new key goes to the end), \<open>cache.delete\<close> is \<^const>\<open>AList.delete\<close>.
\<close>

record 'p cache_entry =
  timestamp :: int
  data :: 'p

type_synonym 'p cache = "(string \<times> 'p cache_entry) list"

text \<open>
  The body of the hourly task: the \<open>for ... of cache.entries()\<close> loop with the variables
  \<open>cache\<close> and \<open>removed\<close>. The loop deletes only the entry it is visiting, so it visits
  the entries the map had when the loop began, in order.
\<close>

fun sweepLoop ::
  "int \<Rightarrow> int \<Rightarrow> (string \<times> 'p cache_entry) list \<Rightarrow> 'p cache \<times> nat \<Rightarrow> 'p cache \<times> nat" where
  "sweepLoop now maxAge [] (cache, removed) = (cache, removed)"
| "sweepLoop now maxAge ((key, entry) # rest) (cache, removed) =
     (if now - timestamp entry > maxAge
      then sweepLoop now maxAge rest (AList.delete key cache, removed + 1)
      else sweepLoop now maxAge rest (cache, removed))"

text \<open>
  The task, with the clock reading and the maximum age (\<open>CACHE_DURATION\<close> in the source)
  as arguments: the cache afterwards and the count it logs.
\<close>

definition sweep :: "int \<Rightarrow> int \<Rightarrow> 'p cache \<Rightarrow> 'p cache \<times> nat" where
  "sweep now maxAge cache = sweepLoop now maxAge cache (cache, 0)"

definition tooOld :: "int \<Rightarrow> int \<Rightarrow> string \<times> 'p cache_entry \<Rightarrow> bool" where
  "tooOld now maxAge kv = (now - timestamp (snd kv) > maxAge)"

section \<open>The fetch orchestrator\<close>

text \<open>
  Values of the request body: a finite number (every finite double is a rational), a
  string, a boolean or \<open>null\<close>. Nested arrays and objects inside \<open>bbox\<close> and \<open>options\<close>
  are left out.
\<close>

datatype jsval = JNum rat | JStr string | JBool bool | JNull

text \<open>
  The source turns values into text twice: in \<open>bbox.join(",")\<close>, where \<open>null\<close> gives the
  empty string, and in the template literal, where it gives \<open>null\<close>. The text of a number
  is the language's own conversion, the parameter \<open>numToString\<close>.
\<close>

fun toStr :: "(rat \<Rightarrow> string) \<Rightarrow> jsval \<Rightarrow> string" where
  "toStr numToString (JNum r) = numToString r"
| "toStr numToString (JStr s) = s"
| "toStr numToString (JBool b) = (if b then ''true'' else ''false'')"
| "toStr numToString JNull = ''null''"

fun joinElem :: "(rat \<Rightarrow> string) \<Rightarrow> jsval \<Rightarrow> string" where
  "joinElem numToString JNull = []"
| "joinElem numToString v = toStr numToString v"

fun join :: "string \<Rightarrow> string list \<Rightarrow> string" where
  "join sep [] = []"
| "join sep [x] = x"
| "join sep (x # y # ys) = x @ sep @ join sep (y # ys)"

text \<open>The cache key \<open>`${bbox.join(",")}-${width}-${height}`\<close>.\<close>

definition cacheKey :: "(rat \<Rightarrow> string) \<Rightarrow> jsval list \<Rightarrow> jsval \<Rightarrow> jsval \<Rightarrow> string" where
  "cacheKey numToString bbox width height =
     join '','' (map (joinElem numToString) bbox)
       @ ''-'' @ toStr numToString width @ ''-'' @ toStr numToString height"

text \<open>
  The second argument of \<open>getSatelliteData\<close>: \<open>undefined\<close> (the default \<open>{}\<close> applies),
  \<open>null\<close> (destructuring it throws) or an object whose three properties may be missing.
\<close>

record options =
  opt_width :: "jsval option"
  opt_height :: "jsval option"
  opt_maxCloudCoverage :: "jsval option"

datatype options_arg = OptionsUndefined | OptionsNull | OptionsObject options

text \<open>
  \<open>const { width = 512, height = 512, maxCloudCoverage = 30 } = options\<close>, after the
  parameter default \<open>options = {}\<close>: a default stands in for a missing property.
\<close>

definition orDefault :: "jsval option \<Rightarrow> rat \<Rightarrow> jsval" where
  "orDefault v d = (case v of None \<Rightarrow> JNum d | Some x \<Rightarrow> x)"

definition destructure :: "options_arg \<Rightarrow> error + jsval \<times> jsval \<times> jsval" where
  "destructure opts =
     (case opts of
        OptionsNull \<Rightarrow> Inl TypeError
      | OptionsUndefined \<Rightarrow> Inr (JNum 512, JNum 512, JNum 30)
      | OptionsObject ob \<Rightarrow>
          Inr (orDefault (opt_width ob) 512, orDefault (opt_height ob) 512,
               orDefault (opt_maxCloudCoverage ob) 30))"

text \<open>
  The imagery endpoint: a rejection, or a response with its content-type header (\<open>None\<close>
  when absent) and its body.
\<close>

datatype imagery_response = ImageryFailed | ImageryOk "string option" bytes

text \<open>
  The string \<open>`data:${type};base64,${bytes.toString("base64")}`\<close>, kept as its two
  components.
\<close>

datatype data_uri = DataUri string bytes

record metadata =
  meta_timestamp :: string
  meta_bbox :: "jsval list"
  meta_cloudCoverage :: jsval
  meta_source :: string

text \<open>
  The object \<open>result\<close>; \<open>None\<close> in an image field is \<open>null\<close>. The analysis is drawn
  from \<open>Math.random\<close> by \<open>analyzeSentinelData\<close>, which reads only two numbers of
  \<open>bbox\<close> and throws nothing; it is a value of the environment here.
\<close>

record 'a payload =
  truecolor :: "data_uri option"
  ndvi :: "data_uri option"
  ndwi :: "data_uri option"
  scl :: "data_uri option"
  metadata :: metadata
  analysis :: 'a

text \<open>What one call of \<open>getSatelliteData\<close> reads from outside, in the order it reads it.\<close>

record 'a fetch_env =
  nowLookup :: int
  tokenEnv :: token_env
  imagery :: imagery_response
  isoTime :: string
  analysisResult :: 'a
  nowCache :: int

text \<open>
  \<open>if (cache.has(cacheKey)) { ... if (Date.now() - cached.timestamp < CACHE_DURATION)
  return cached.data }\<close>: the data of a live entry.
\<close>

definition cacheLookup :: "int \<Rightarrow> int \<Rightarrow> 'p cache \<Rightarrow> string \<Rightarrow> 'p option" where
  "cacheLookup CACHE_DURATION now cache key =
     (case map_of cache key of
        None \<Rightarrow> None
      | Some cached \<Rightarrow> if now - timestamp cached < CACHE_DURATION then Some (data cached) else None)"

text \<open>The object literal \<open>result\<close> with \<open>result.analysis\<close> assigned.\<close>

definition buildResult :: "'a fetch_env \<Rightarrow> jsval list \<Rightarrow> jsval \<Rightarrow> parts \<Rightarrow> 'a payload" where
  "buildResult env bbox maxCloudCoverage parts =
     \<lparr>truecolor = map_option (DataUri ''image/png'') (parts ''truecolor''),
      ndvi = map_option (DataUri ''image/tiff'') (parts ''ndvi''),
      ndwi = map_option (DataUri ''image/tiff'') (parts ''ndwi''),
      scl = map_option (DataUri ''image/tiff'') (parts ''scl''),
      metadata =
        \<lparr>meta_timestamp = isoTime env, meta_bbox = bbox,
         meta_cloudCoverage = maxCloudCoverage, meta_source = ''Sentinel-2 L2A''\<rparr>,
      analysis = analysisResult env\<rparr>"

text \<open>
  \<open>getSatelliteData(bbox, options)\<close> as one step on the service and the cache:
  the payload returned or the error thrown, the service and the cache afterwards, and the
  events. \<open>CACHE_DURATION\<close> is the module constant, \<open>rt\<close> the runtime of the decoder. The \<open>catch\<close> block logs and
  rethrows, so an error of the \<open>try\<close> block is the error of the call.
\<close>

definition getSatelliteData ::
  "runtime \<Rightarrow> (rat \<Rightarrow> string) \<Rightarrow> int \<Rightarrow> 'a fetch_env \<Rightarrow> jsval list \<Rightarrow> options_arg
     \<Rightarrow> service
     \<Rightarrow> 'a payload cache
     \<Rightarrow> (error + 'a payload) \<times> service \<times> 'a payload cache \<times> event list" where
  "getSatelliteData rt numToString CACHE_DURATION env bbox opts svc cache =
     (case destructure opts of
        Inl e \<Rightarrow> (Inl e, svc, cache, [])
      | Inr (width, height, maxCloudCoverage) \<Rightarrow>
        (let key = cacheKey numToString bbox width height
         in case cacheLookup CACHE_DURATION (nowLookup env) cache key of
              Some cached \<Rightarrow> (Inr cached, svc, cache, [CacheRead key])
            | None \<Rightarrow>
              (case getAccessToken (tokenEnv env) svc of
                 (Inl e, svc', evs) \<Rightarrow> (Inl e, svc', cache, CacheRead key # evs)
               | (Inr tok, svc', evs) \<Rightarrow>
                 (case imagery env of
                    ImageryFailed \<Rightarrow>
                      (Inl RequestFailed, svc', cache, CacheRead key # evs @ [ImageryRequest])
                  | ImageryOk contentType body \<Rightarrow>
                    (case extractBoundary contentType of
                       Inl e \<Rightarrow> (Inl e, svc', cache, CacheRead key # evs @ [ImageryRequest])
                     | Inr boundary \<Rightarrow>
                       (case parseMultipartResponse rt body boundary of
                          Inl e \<Rightarrow> (Inl e, svc', cache, CacheRead key # evs @ [ImageryRequest])
                        | Inr parts \<Rightarrow>
                          (let result = buildResult env bbox maxCloudCoverage parts
                           in (Inr result, svc',
                               AList.update key \<lparr>timestamp = nowCache env, data = result\<rparr> cache,
                               CacheRead key # evs @ [ImageryRequest, CacheWrite key]))))))))"

section \<open>The request handler\<close>

text \<open>
  The property \<open>bbox\<close> of the body of \<open>POST /api/satellite-data\<close>: missing, an array,
  or another value.
\<close>

datatype bbox_field = BboxUndefined | BboxArray "jsval list" | BboxOther jsval

definition isArray :: "bbox_field \<Rightarrow> bool" where
  "isArray b = (case b of BboxArray xs \<Rightarrow> True | _ \<Rightarrow> False)"

text \<open>\<open>!bbox\<close>: an array is truthy; \<open>undefined\<close>, \<open>null\<close>, \<open>false\<close>, \<open>0\<close> and \<open>""\<close> are not.\<close>

definition falsy :: "bbox_field \<Rightarrow> bool" where
  "falsy b =
     (case b of
        BboxUndefined \<Rightarrow> True
      | BboxArray xs \<Rightarrow> False
      | BboxOther v \<Rightarrow> v = JNull \<or> v = JBool False \<or> v = JNum 0 \<or> v = JStr [])"

definition elements :: "bbox_field \<Rightarrow> jsval list" where
  "elements b = (case b of BboxArray xs \<Rightarrow> xs | _ \<Rightarrow> [])"

record request_body =
  body_bbox :: bbox_field
  body_options :: options_arg

datatype 'p response = Status400 | Status200 'p | Status500 error

text \<open>
  The handler of \<open>POST /api/satellite-data\<close>: the response, the service and the cache
  afterwards, and the events.
\<close>

definition satelliteDataHandler ::
  "runtime \<Rightarrow> (rat \<Rightarrow> string) \<Rightarrow> int \<Rightarrow> 'a fetch_env \<Rightarrow> request_body \<Rightarrow> service
     \<Rightarrow> 'a payload cache
     \<Rightarrow> 'a payload response \<times> service \<times> 'a payload cache \<times> event list" where
  "satelliteDataHandler rt numToString CACHE_DURATION env body svc cache =
     (let bbox = body_bbox body in
      if falsy bbox \<or> \<not> isArray bbox \<or> length (elements bbox) \<noteq> 4 then
        (Status400, svc, cache, [])
      else
        (case getSatelliteData rt numToString CACHE_DURATION env (elements bbox)
                (body_options body) svc cache of
           (Inr payload, svc', cache', evs) \<Rightarrow> (Status200 payload, svc', cache', evs)
         | (Inl e, svc', cache', evs) \<Rightarrow> (Status500 e, svc', cache', evs)))"

text \<open>
  The BoundingBox of the data model, as the specification words it: exactly four numbers
  with \<open>minLon < maxLon\<close> and \<open>minLat < maxLat\<close>.
\<close>

definition wellFormedBoundingBox :: "bbox_field \<Rightarrow> bool" where
  "wellFormedBoundingBox b =
     (case b of
        BboxArray [JNum minLon, JNum minLat, JNum maxLon, JNum maxLat] \<Rightarrow>
          minLon < maxLon \<and> minLat < maxLat
      | _ \<Rightarrow> False)"

section \<open>Sample data\<close>



definition danglingBody :: bytes where
  "danglingBody = ''--b'' @ CRLF @ ''Content-ID: <a>''"

text \<open>A body cut short after the marker and the first header of its second part.\<close>

definition cutBody :: bytes where
  "cutBody =
     ''--b'' @ CRLF @ ''Content-ID: <truecolor>'' @ CRLFCRLF @ ''hello'' @ CRLF
       @ ''--b'' @ CRLF @ ''Content-ID: <ndvi>''"

text \<open>A body whose first part is named \<open>__proto__\<close> and whose second part is named \<open>length\<close>.\<close>

definition protoBody :: bytes where
  "protoBody =
     ''--b'' @ CRLF @ ''Content-ID: <__proto__>'' @ CRLFCRLF @ ''abcdef'' @ CRLF
       @ ''--b'' @ CRLF @ ''Content-ID: <length>'' @ CRLFCRLF @ ''xyz'' @ CRLF @ ''--b--'' @ CRLF"

text \<open>
  A runtime in which the names a Buffer provides as accessors without a setter throw, and
  every other name is defined.
\<close>

definition sampleRuntime :: runtime where
  "sampleRuntime proto name =
     (if name \<in> set [''length'', ''byteLength'', ''byteOffset'', ''buffer'', ''parent'', ''offset'']
      then ThrowsTypeError else DefinesOwn)"

text \<open>A rendering of the numbers the instances use.\<close>

definition sampleNumToString :: "rat \<Rightarrow> string" where
  "sampleNumToString r =
     (if r = 512 then ''512'' else if r = 10 then ''10'' else if r = 5 then ''5'' else ''0'')"

definition sampleBbox :: "jsval list" where
  "sampleBbox = [JNum 10, JNum 10, JNum 5, JNum 5]"

definition sampleKey :: string where
  "sampleKey = ''10,10,5,5-512-512''"

definition sampleTokenEnv :: token_env where
  "sampleTokenEnv =
     \<lparr>nowCheck = 1001, exchange = ExchangeOk (Data (Some ''t'') (Some 3600)), nowStore = 1002\<rparr>"

definition sampleService :: service where
  "sampleService = \<lparr>token = Some ''t'', tokenExpiry = ExpiryAt 3601002\<rparr>"

text \<open>A fetch whose imagery response has one part, with a Content-ID the pipeline does not ask for.\<close>

definition sampleEnv :: "unit fetch_env" where
  "sampleEnv =
     \<lparr>nowLookup = 1000, tokenEnv = sampleTokenEnv,
      imagery = ImageryOk (Some ''multipart/mixed; boundary=b'')
                  (encodeMultipart ''b'' [(''extra'', ''data'')]),
      isoTime = ''2024-01-01T00:00:00.000Z'', analysisResult = (), nowCache = 1003\<rparr>"

definition samplePayload :: "unit payload" where
  "samplePayload =
     \<lparr>truecolor = None, ndvi = None, ndwi = None, scl = None,
      metadata =
        \<lparr>meta_timestamp = ''2024-01-01T00:00:00.000Z'', meta_bbox = sampleBbox,
         meta_cloudCoverage = JNum 30, meta_source = ''Sentinel-2 L2A''\<rparr>,
      analysis = ()\<rparr>"

text \<open>The same fetch with the imagery body cut short, and the payload it gives.\<close>

definition cutEnv :: "unit fetch_env" where
  "cutEnv = sampleEnv\<lparr>imagery := ImageryOk (Some ''multipart/mixed; boundary=b'') cutBody\<rparr>"

definition partialPayload :: "unit payload" where
  "partialPayload = samplePayload\<lparr>truecolor := Some (DataUri ''image/png'' ''hel'')\<rparr>"

section \<open>Facts about the search\<close>




text \<open>The unfolding rules that evaluate the decoder on a given buffer.\<close>

lemmas decoder_eval =
  scanParts.simps parseMultipartResponse_def indexOf_def slice_def interpolate_def Let_def
  encodeMultipart_def encodeOpen_def encodePart_def CRLFCRLF_def CRLF_def CR_def LF_def
  assign_def emptyObject_def between_def

section \<open>Facts about the scan\<close>














section \<open>The decoder: round trip and termination by a closing marker\<close>

text \<open>
  C1. The claim: a standard multipart body of N parts with distinct content-IDs decodes to
  exactly those content-IDs, each with its original bytes. The code does not do this:
  where a next delimiter follows a body, \<open>contentEnd = nextBoundary - 4\<close> cuts four bytes,
  and the line break before the delimiter is two, so every such body loses its last two
  bytes (the other branch, \<open>end - 2\<close>, cuts the two). For the boundary \<open>b\<close> and the parts
  \<open>truecolor\<close> with body \<open>hello\<close> and \<open>ndvi\<close> with body \<open>xy\<close> the decoder returns
  \<open>hel\<close> and the empty buffer, in every runtime.
\<close>

theorem roundtrip_truncates_bodies:
  "parseMultipartResponse rt
     (encodeMultipart ''b'' [(''truecolor'', ''hello''), (''ndvi'', ''xy'')]) (Some ''b'')
   = Inr [''truecolor'' \<mapsto> ''hel'', ''ndvi'' \<mapsto> []]"
  by (simp add: decoder_eval)

text \<open>
  C2. The claim: a body that ends with the closing marker \<open>--boundary--\<close> and the same
  body without the marker decode to the same mapping. The code does not do this: with the
  marker the last body ends at \<open>nextBoundary - 4\<close>, without it at \<open>end - 2\<close>, so the
  last body is two bytes shorter with the marker. For the part \<open>ndwi\<close> with body
  \<open>water\<close> the closed body gives \<open>wat\<close> and the open one \<open>water\<close>.
\<close>

theorem closing_marker_changes_last_body:
  "parseMultipartResponse rt (encodeMultipart ''b'' [(''ndwi'', ''water'')]) (Some ''b'')
     = Inr [''ndwi'' \<mapsto> ''wat'']
   \<and> parseMultipartResponse rt (encodeOpen ''b'' [(''ndwi'', ''water'')]) (Some ''b'')
     = Inr [''ndwi'' \<mapsto> ''water'']"
  by (simp add: decoder_eval)

section \<open>The decoder: a missing delimiter\<close>




section \<open>The decoder: parts without a Content-ID\<close>



section \<open>The token manager: reuse and expiry\<close>

lemma roundToDouble_exact: "\<bar>x\<bar> \<le> 2 ^ 53 \<Longrightarrow> roundToDouble x = x"
proof -
  assume a: "\<bar>x\<bar> \<le> 2 ^ 53"
  have "int (nat \<bar>x\<bar>) \<le> int (2 ^ 53)" using a by simp
  then have "nat \<bar>x\<bar> \<le> 2 ^ 53" by (simp only: of_nat_le_iff)
  then show ?thesis by (simp add: roundToDouble_def)
qed

lemma overflow_exact: "\<bar>v\<bar> \<le> 2 ^ 53 \<Longrightarrow> overflow v = ExpiryAt v"
proof -
  assume a: "\<bar>v\<bar> \<le> 2 ^ 53"
  have "(2::int) ^ 53 < 2 ^ 1024" by (rule power_strict_increasing) simp_all
  with a have "v < 2 ^ 1024" "- (2 ^ 1024) < v" by linarith+
  then show ?thesis by (simp add: overflow_def)
qed

lemma expiryFrom_exact:
  "\<bar>seconds * 1000\<bar> \<le> 2 ^ 53 \<Longrightarrow> \<bar>now + seconds * 1000\<bar> \<le> 2 ^ 53
   \<Longrightarrow> expiryFrom now seconds = ExpiryAt (now + seconds * 1000)"
  by (simp add: expiryFrom_def roundToDouble_exact overflow_exact)

text \<open>
  C4, as the claim states it, fails: the first call stores the empty token the endpoint
  returned, with an expiry of 3600000; the second call is made at 1000, before the expiry,
  and exchanges again, because the guard is \<open>this.token && this.tokenExpiry > Date.now()\<close>
  and the empty string is not truthy.
\<close>

theorem empty_token_is_exchanged_again:
  "getAccessToken
     \<lparr>nowCheck = 0, exchange = ExchangeOk (Data (Some []) (Some 3600)), nowStore = 0\<rparr>
     initialService
     = (Inr (Some []), \<lparr>token = Some [], tokenExpiry = ExpiryAt 3600000\<rparr>, [TokenExchange])
   \<and> expiryAfter (ExpiryAt 3600000) 1000
   \<and> getAccessToken
       \<lparr>nowCheck = 1000, exchange = ExchangeOk (Data (Some ''t'') (Some 3600)), nowStore = 1001\<rparr>
       \<lparr>token = Some [], tokenExpiry = ExpiryAt 3600000\<rparr>
     = (Inr (Some ''t''), \<lparr>token = Some ''t'', tokenExpiry = ExpiryAt 3601001\<rparr>, [TokenExchange])"
  by (simp add: getAccessToken_def initialService_def truthy_def expiryAfter_def expiryFrom_exact)

text \<open>
  C4, amended. \<open>getAccessToken\<close> returns the cached token without an exchange when the
  cached token is a non-empty string and the clock is before the expiry. In every other
  case it makes exactly one exchange, whatever the response; when the response has a token
  and a lifetime, it overwrites the cached token and sets the expiry to the clock read on
  storing plus the lifetime times 1000 (milliseconds), in double arithmetic, which is exact
  while the product and the sum stay within \<open>2^53\<close>. So a call that exchanges and
  receives a non-empty token, followed by a call before the stored expiry, make one
  exchange between them, the first, and the second returns that token; and a call at or
  after the expiry makes an exchange.
\<close>

theorem token_reuse_and_expiry:
  "(truthy (token s) \<and> expiryAfter (tokenExpiry s) (nowCheck env)
      \<longrightarrow> getAccessToken env s = (Inr (token s), s, []))
   \<and> (\<not> (truthy (token s) \<and> expiryAfter (tokenExpiry s) (nowCheck env))
      \<longrightarrow> snd (snd (getAccessToken env s)) = [TokenExchange])
   \<and> (\<not> (truthy (token s) \<and> expiryAfter (tokenExpiry s) (nowCheck env))
        \<and> exchange env = ExchangeOk (Data tok (Some seconds))
      \<longrightarrow> getAccessToken env s
          = (Inr tok, \<lparr>token = tok, tokenExpiry = expiryFrom (nowStore env) seconds\<rparr>,
             [TokenExchange]))
   \<and> (\<bar>seconds * 1000\<bar> \<le> 2 ^ 53 \<and> \<bar>now + seconds * 1000\<bar> \<le> 2 ^ 53
      \<longrightarrow> expiryFrom now seconds = ExpiryAt (now + seconds * 1000))
   \<and> (\<not> (truthy (token s) \<and> expiryAfter (tokenExpiry s) (nowCheck env))
        \<and> exchange env = ExchangeOk (Data (Some t) (Some seconds)) \<and> t \<noteq> []
        \<and> expiryAfter (expiryFrom (nowStore env) seconds) (nowCheck env')
      \<longrightarrow> (case getAccessToken env s of
             (r, s', evs) \<Rightarrow>
               (case getAccessToken env' s' of
                  (r', s'', evs') \<Rightarrow>
                    r' = Inr (Some t) \<and> s'' = s' \<and> evs = [TokenExchange] \<and> evs' = []
                    \<and> exchanges (evs @ evs') = 1)))
   \<and> (tokenExpiry s = ExpiryAt e \<and> e \<le> nowCheck env
      \<longrightarrow> snd (snd (getAccessToken env s)) = [TokenExchange])"
proof -
  note ev = getAccessToken_def truthy_def exchanges_def expiryAfter_def
  have c1: "truthy (token s) \<and> expiryAfter (tokenExpiry s) (nowCheck env)
      \<longrightarrow> getAccessToken env s = (Inr (token s), s, [])"
    by (simp add: getAccessToken_def)
  have c2: "\<not> (truthy (token s) \<and> expiryAfter (tokenExpiry s) (nowCheck env))
      \<longrightarrow> snd (snd (getAccessToken env s)) = [TokenExchange]"
    by (auto simp: getAccessToken_def split: token_response.splits token_data.splits)
  have c3: "\<not> (truthy (token s) \<and> expiryAfter (tokenExpiry s) (nowCheck env))
        \<and> exchange env = ExchangeOk (Data tok (Some seconds))
      \<longrightarrow> getAccessToken env s
          = (Inr tok, \<lparr>token = tok, tokenExpiry = expiryFrom (nowStore env) seconds\<rparr>,
             [TokenExchange])"
    by (auto simp: getAccessToken_def)
  have c4: "\<bar>seconds * 1000\<bar> \<le> 2 ^ 53 \<and> \<bar>now + seconds * 1000\<bar> \<le> 2 ^ 53
      \<longrightarrow> expiryFrom now seconds = ExpiryAt (now + seconds * 1000)"
    by (simp add: expiryFrom_exact)
  have c5: "\<not> (truthy (token s) \<and> expiryAfter (tokenExpiry s) (nowCheck env))
        \<and> exchange env = ExchangeOk (Data (Some t) (Some seconds)) \<and> t \<noteq> []
        \<and> expiryAfter (expiryFrom (nowStore env) seconds) (nowCheck env')
      \<longrightarrow> (case getAccessToken env s of
             (r, s', evs) \<Rightarrow>
               (case getAccessToken env' s' of
                  (r', s'', evs') \<Rightarrow>
                    r' = Inr (Some t) \<and> s'' = s' \<and> evs = [TokenExchange] \<and> evs' = []
                    \<and> exchanges (evs @ evs') = 1))"
    by (auto simp: ev)
  have c6: "tokenExpiry s = ExpiryAt e \<and> e \<le> nowCheck env
      \<longrightarrow> snd (snd (getAccessToken env s)) = [TokenExchange]"
    by (auto simp: ev split: token_response.splits token_data.splits)
  show ?thesis
    by (intro conjI) (fact c1, fact c2, fact c3, fact c4, fact c5, fact c6)
qed

text \<open>
  The amended C4 on a run: the first call, on the fresh service, exchanges and stores the
  token \<open>t\<close> until 3601002; a call at 2000 returns it with no exchange, one exchange for
  the two calls; a call at 3601002 exchanges again; and a rejected exchange on the fresh
  service is one exchange too.
\<close>

theorem token_reuse_and_expiry_witness:
  "getAccessToken sampleTokenEnv initialService = (Inr (Some ''t''), sampleService, [TokenExchange])
   \<and> expiryFrom 1002 3600 = ExpiryAt 3601002
   \<and> truthy (token sampleService) \<and> expiryAfter (tokenExpiry sampleService) 2000
   \<and> getAccessToken (sampleTokenEnv\<lparr>nowCheck := 2000\<rparr>) sampleService
       = (Inr (Some ''t''), sampleService, [])
   \<and> (case getAccessToken sampleTokenEnv initialService of
        (r, s', evs) \<Rightarrow>
          (case getAccessToken (sampleTokenEnv\<lparr>nowCheck := 2000\<rparr>) s' of
             (r', s'', evs') \<Rightarrow>
               r' = Inr (Some ''t'') \<and> s'' = s' \<and> evs = [TokenExchange] \<and> evs' = []
               \<and> exchanges (evs @ evs') = 1))
   \<and> tokenExpiry sampleService = ExpiryAt 3601002
   \<and> snd (snd (getAccessToken (sampleTokenEnv\<lparr>nowCheck := 3601002\<rparr>) sampleService))
       = [TokenExchange]
   \<and> snd (snd (getAccessToken (sampleTokenEnv\<lparr>exchange := ExchangeRejected\<rparr>) initialService))
       = [TokenExchange]"
proof -
  have e: "expiryFrom 1002 3600 = ExpiryAt 3601002"
    using expiryFrom_exact [of 3600 1002] by simp
  from token_reuse_and_expiry
          [of initialService sampleTokenEnv "Some ''t''" 3600 1002 "''t''"
              "sampleTokenEnv\<lparr>nowCheck := 2000\<rparr>" 0]
        token_reuse_and_expiry
          [of sampleService "sampleTokenEnv\<lparr>nowCheck := 2000\<rparr>"]
        token_reuse_and_expiry
          [of sampleService "sampleTokenEnv\<lparr>nowCheck := 3601002\<rparr>" _ _ _ _ _ 3601002]
        token_reuse_and_expiry
          [of initialService "sampleTokenEnv\<lparr>exchange := ExchangeRejected\<rparr>"]
        e
  show ?thesis
    by (simp add: sampleTokenEnv_def sampleService_def initialService_def truthy_def
          expiryAfter_def exchanges_def)
qed

section \<open>The token manager: failures of the exchange\<close>

text \<open>
  C7, as the claim states it, fails: a success response whose payload has \<open>expires_in\<close>
  and no \<open>access_token\<close> is not rejected; the call returns \<open>undefined\<close> and stores it.
\<close>

theorem malformed_payload_is_returned:
  "getAccessToken
     \<lparr>nowCheck = 0, exchange = ExchangeOk (Data None (Some 3600)), nowStore = 0\<rparr>
     initialService
   = (Inr None, \<lparr>token = None, tokenExpiry = ExpiryAt 3600000\<rparr>, [TokenExchange])"
  by (simp add: getAccessToken_def initialService_def truthy_def expiryAfter_def expiryFrom_exact)

text \<open>
  C7, amended. When no usable token is cached, \<open>getAccessToken\<close> makes one exchange. It
  fails with the authentication error, and leaves the service as it was, whenever the
  exchange is rejected (a status outside 2xx, a network error) or the \<open>data\<close> of the
  response is \<open>null\<close> or \<open>undefined\<close>. Any other response is accepted, also the string
  of an empty body and an object without \<open>access_token\<close> or \<open>expires_in\<close>: the call
  stores \<open>access_token\<close> as it is (\<open>undefined\<close> when missing) with the expiry
  (\<open>NaN\<close> when \<open>expires_in\<close> is missing), and returns it.
\<close>

theorem exchange_failures:
  "\<not> (truthy (token s) \<and> expiryAfter (tokenExpiry s) (nowCheck env)) \<longrightarrow>
     (exchange env = ExchangeRejected \<or> exchange env = ExchangeOk NoData
        \<longrightarrow> getAccessToken env s = (Inl AuthenticationFailed, s, [TokenExchange]))
     \<and> (exchange env = ExchangeOk (Data tok lifetime)
        \<longrightarrow> getAccessToken env s
            = (Inr tok,
               \<lparr>token = tok,
                tokenExpiry =
                  (case lifetime of
                     None \<Rightarrow> ExpiryNaN
                   | Some seconds \<Rightarrow> expiryFrom (nowStore env) seconds)\<rparr>,
               [TokenExchange]))"
  by (auto simp: getAccessToken_def)

text \<open>
  The amended C7 on the fresh service: a rejected exchange and a response without data
  fail and change nothing; a response with a token and no lifetime stores the token with
  the expiry \<open>NaN\<close> and returns it; the string of an empty body stores \<open>undefined\<close>.
\<close>

theorem exchange_failures_witness:
  "\<not> (truthy (token initialService) \<and> expiryAfter (tokenExpiry initialService) 1001)
   \<and> getAccessToken (sampleTokenEnv\<lparr>exchange := ExchangeRejected\<rparr>) initialService
       = (Inl AuthenticationFailed, initialService, [TokenExchange])
   \<and> getAccessToken (sampleTokenEnv\<lparr>exchange := ExchangeOk NoData\<rparr>) initialService
       = (Inl AuthenticationFailed, initialService, [TokenExchange])
   \<and> getAccessToken (sampleTokenEnv\<lparr>exchange := ExchangeOk (Data (Some ''t'') None)\<rparr>)
       initialService
       = (Inr (Some ''t''), \<lparr>token = Some ''t'', tokenExpiry = ExpiryNaN\<rparr>, [TokenExchange])
   \<and> getAccessToken (sampleTokenEnv\<lparr>exchange := ExchangeOk (Data None None)\<rparr>) initialService
       = (Inr None, \<lparr>token = None, tokenExpiry = ExpiryNaN\<rparr>, [TokenExchange])"
  using exchange_failures [of initialService "sampleTokenEnv\<lparr>exchange := ExchangeRejected\<rparr>"]
        exchange_failures [of initialService "sampleTokenEnv\<lparr>exchange := ExchangeOk NoData\<rparr>"]
        exchange_failures
          [of initialService "sampleTokenEnv\<lparr>exchange := ExchangeOk (Data (Some ''t'') None)\<rparr>"
              "Some ''t''" None]
        exchange_failures
          [of initialService "sampleTokenEnv\<lparr>exchange := ExchangeOk (Data None None)\<rparr>"
              None None]
  by (simp add: sampleTokenEnv_def initialService_def truthy_def)

section \<open>The cache sweep\<close>

lemma sweepLoop_filter:
  "sweepLoop now maxAge rest (cache, removed) =
     (filter (\<lambda>kv. fst kv \<notin> fst ` set (filter (tooOld now maxAge) rest)) cache,
      removed + length (filter (tooOld now maxAge) rest))"
proof (induction rest arbitrary: cache removed)
  case Nil
  then show ?case by simp
next
  case (Cons kv rest)
  obtain key entry where kv: "kv = (key, entry)" by (cases kv)
  show ?case
  proof (cases "tooOld now maxAge kv")
    case True
    then have "sweepLoop now maxAge (kv # rest) (cache, removed)
        = sweepLoop now maxAge rest (AList.delete key cache, removed + 1)"
      by (simp add: kv tooOld_def)
    also have "\<dots> = (filter (\<lambda>kv. fst kv \<notin> fst ` set (filter (tooOld now maxAge) rest))
                        (AList.delete key cache),
                     removed + 1 + length (filter (tooOld now maxAge) rest))"
      by (rule Cons.IH)
    also have "filter (\<lambda>kv. fst kv \<notin> fst ` set (filter (tooOld now maxAge) rest))
                 (AList.delete key cache)
             = filter (\<lambda>kv'. fst kv' \<notin> fst ` set (filter (tooOld now maxAge) (kv # rest))) cache"
      using True by (auto simp: AList.delete_eq kv intro!: filter_cong)
    finally show ?thesis using True by simp
  next
    case False
    then have "sweepLoop now maxAge (kv # rest) (cache, removed)
        = sweepLoop now maxAge rest (cache, removed)"
      by (simp add: kv tooOld_def)
    with False Cons.IH [of cache removed] show ?thesis by simp
  qed
qed

text \<open>
  C6. On a cache (a map: distinct keys), the sweep removes exactly the entries whose age
  \<open>now - timestamp\<close> exceeds \<open>maxAge\<close>, keeps the others in their order, and reports the
  number of entries it removed; so a cache that holds K entries older than \<open>maxAge\<close> loses
  exactly those K, and K is reported.
\<close>

theorem sweep_removes_exactly_the_old:
  assumes "distinct (map fst cache)"
  shows "sweep now maxAge cache =
           (filter (\<lambda>kv. \<not> tooOld now maxAge kv) cache,
            length (filter (tooOld now maxAge) cache))"
proof -
  have "filter (\<lambda>kv. fst kv \<notin> fst ` set (filter (tooOld now maxAge) cache)) cache
      = filter (\<lambda>kv. \<not> tooOld now maxAge kv) cache"
  proof (rule filter_cong [OF refl])
    fix kv assume kv: "kv \<in> set cache"
    have "fst kv \<in> fst ` set (filter (tooOld now maxAge) cache) \<longleftrightarrow> tooOld now maxAge kv"
    proof
      assume "fst kv \<in> fst ` set (filter (tooOld now maxAge) cache)"
      then obtain kv' where kv': "kv' \<in> set cache" "tooOld now maxAge kv'" "fst kv = fst kv'"
        by auto
      from assms have "inj_on fst (set cache)" by (simp add: distinct_map)
      with kv kv' have "kv = kv'" by (auto dest: inj_onD)
      with kv' show "tooOld now maxAge kv" by simp
    next
      assume "tooOld now maxAge kv"
      with kv show "fst kv \<in> fst ` set (filter (tooOld now maxAge) cache)" by auto
    qed
    then show "(fst kv \<notin> fst ` set (filter (tooOld now maxAge) cache)) = (\<not> tooOld now maxAge kv)"
      by simp
  qed
  then show ?thesis by (simp add: sweep_def sweepLoop_filter)
qed

text \<open>
  C6 on a cache built by three \<open>cache.set\<close> calls, two of them with timestamps older than
  the maximum age of 500 at the time 1000: the sweep removes the two and reports 2.
\<close>

theorem sweep_removes_exactly_the_old_witness:
  "distinct (map fst
      (AList.update ''k3'' \<lparr>timestamp = 900, data = ''young''\<rparr>
        (AList.update ''k2'' \<lparr>timestamp = 200, data = ''old''\<rparr>
          (AList.update ''k1'' \<lparr>timestamp = 100, data = ''older''\<rparr> []))))
   \<and> sweep 1000 500
      (AList.update ''k3'' \<lparr>timestamp = 900, data = ''young''\<rparr>
        (AList.update ''k2'' \<lparr>timestamp = 200, data = ''old''\<rparr>
          (AList.update ''k1'' \<lparr>timestamp = 100, data = ''older''\<rparr> [])))
     = ([(''k3'', \<lparr>timestamp = 900, data = ''young''\<rparr>)], 2)"
  using sweep_removes_exactly_the_old [of
      "AList.update ''k3'' \<lparr>timestamp = 900, data = ''young''\<rparr>
        (AList.update ''k2'' \<lparr>timestamp = 200, data = ''old''\<rparr>
          (AList.update ''k1'' \<lparr>timestamp = 100, data = ''older''\<rparr> []))" 1000 500]
  by (simp add: tooOld_def)

section \<open>The orchestrator: failures\<close>

lemmas fetch_eval =
  getSatelliteData_def destructure_def orDefault_def cacheKey_def cacheLookup_def
  getAccessToken_def extractBoundary_def buildResult_def truthy_def expiryAfter_def
  expiryFrom_exact sampleEnv_def sampleTokenEnv_def sampleService_def initialService_def
  sampleBbox_def sampleKey_def sampleNumToString_def samplePayload_def cutEnv_def
  partialPayload_def

text \<open>
  C5, as the claim states it, fails: the call does not always return a complete payload
  or fail. The imagery body below is cut short after the marker of its second part; the
  decoder returns the one part it decoded before (see C3), and the call succeeds with a
  payload that has \<open>truecolor\<close> and no \<open>ndvi\<close>, and stores that payload in the cache.
\<close>

theorem partial_payload_is_cached:
  "parseMultipartResponse sampleRuntime cutBody (Some ''b'') = Inr [''truecolor'' \<mapsto> ''hel'']
   \<and> getSatelliteData sampleRuntime sampleNumToString 3600000 cutEnv sampleBbox OptionsUndefined
       initialService []
     = (Inr partialPayload, sampleService,
        [(sampleKey, \<lparr>timestamp = 1003, data = partialPayload\<rparr>)],
        [CacheRead sampleKey, TokenExchange, ImageryRequest, CacheWrite sampleKey])
   \<and> truecolor partialPayload = Some (DataUri ''image/png'' ''hel'')
   \<and> ndvi partialPayload = None"
  by (simp add: fetch_eval cutBody_def decoder_eval)

text \<open>
  C5, amended. A call of \<open>getSatelliteData\<close> that ends in an error leaves the cache as it
  was and makes no \<open>cache.set\<close>. Every failure is the error of the call: of destructuring
  the options, of \<open>getAccessToken\<close> (auth), of the imagery request (transport), of
  reading the boundary of a response without a content-type header and of the decoder
  (decode). A call that fails at none of these returns the payload built from the parts
  the decoder returned, whichever they are, and stores exactly that payload under the key
  of the request; a body cut short is no failure, so the payload of the parts before the
  cut is returned and cached. The call is one step here; calls that interleave at an
  \<open>await\<close> are not modelled.
\<close>

theorem failed_fetch_caches_nothing:
  "getSatelliteData rt numToString CACHE_DURATION env bbox opts svc cache = (r, svc', cache', evs) \<Longrightarrow>
   (r = Inl e \<longrightarrow> cache' = cache \<and> CacheWrite k \<notin> set evs)
   \<and> (destructure opts = Inl e \<longrightarrow> r = Inl e)
   \<and> (destructure opts = Inr (width, height, cloud)
        \<and> cacheLookup CACHE_DURATION (nowLookup env) cache (cacheKey numToString bbox width height)
            = Some cached
      \<longrightarrow> r = Inr cached \<and> cache' = cache)
   \<and> (destructure opts = Inr (width, height, cloud)
        \<and> cacheLookup CACHE_DURATION (nowLookup env) cache (cacheKey numToString bbox width height)
            = None
      \<longrightarrow> (fst (getAccessToken (tokenEnv env) svc) = Inl e \<longrightarrow> r = Inl e)
        \<and> (fst (getAccessToken (tokenEnv env) svc) = Inr tok \<and> imagery env = ImageryFailed
             \<longrightarrow> r = Inl RequestFailed)
        \<and> (fst (getAccessToken (tokenEnv env) svc) = Inr tok \<and> imagery env = ImageryOk None body
             \<longrightarrow> r = Inl TypeError)
        \<and> (fst (getAccessToken (tokenEnv env) svc) = Inr tok
             \<and> imagery env = ImageryOk (Some contentType) body
             \<and> parseMultipartResponse rt body (boundaryMatch contentType) = Inl e
             \<longrightarrow> r = Inl e)
        \<and> (fst (getAccessToken (tokenEnv env) svc) = Inr tok
             \<and> imagery env = ImageryOk (Some contentType) body
             \<and> parseMultipartResponse rt body (boundaryMatch contentType) = Inr parts
             \<and> p = \<lparr>truecolor = map_option (DataUri ''image/png'') (parts ''truecolor''),
                    ndvi = map_option (DataUri ''image/tiff'') (parts ''ndvi''),
                    ndwi = map_option (DataUri ''image/tiff'') (parts ''ndwi''),
                    scl = map_option (DataUri ''image/tiff'') (parts ''scl''),
                    metadata =
                      \<lparr>meta_timestamp = isoTime env, meta_bbox = bbox,
                       meta_cloudCoverage = cloud, meta_source = ''Sentinel-2 L2A''\<rparr>,
                    analysis = analysisResult env\<rparr>
             \<longrightarrow> r = Inr p
                 \<and> cache' = AList.update (cacheKey numToString bbox width height)
                              \<lparr>timestamp = nowCache env, data = p\<rparr> cache))"
  by (auto simp: getSatelliteData_def Let_def getAccessToken_def extractBoundary_def
             buildResult_def
           split: sum.splits prod.splits option.splits imagery_response.splits if_splits
                  token_response.splits token_data.splits)

text \<open>
  The amended C5 on a cache that holds an expired entry for the key of the request: when
  the imagery request fails, and when the decoder throws on the body with the parts
  \<open>__proto__\<close> and \<open>length\<close>, the call fails with that error and the expired entry is
  still there, not overwritten.
\<close>

theorem failed_fetch_caches_nothing_witness:
  "getSatelliteData sampleRuntime sampleNumToString 3600000
     (sampleEnv\<lparr>nowLookup := 4000000, imagery := ImageryFailed\<rparr>) sampleBbox OptionsUndefined
     initialService [(sampleKey, \<lparr>timestamp = 0, data = samplePayload\<rparr>)]
     = (Inl RequestFailed, sampleService, [(sampleKey, \<lparr>timestamp = 0, data = samplePayload\<rparr>)],
        [CacheRead sampleKey, TokenExchange, ImageryRequest])
   \<and> getSatelliteData sampleRuntime sampleNumToString 3600000
     (sampleEnv\<lparr>nowLookup := 4000000,
                imagery := ImageryOk (Some ''multipart/mixed; boundary=b'') protoBody\<rparr>)
     sampleBbox OptionsUndefined
     initialService [(sampleKey, \<lparr>timestamp = 0, data = samplePayload\<rparr>)]
     = (Inl TypeError, sampleService, [(sampleKey, \<lparr>timestamp = 0, data = samplePayload\<rparr>)],
        [CacheRead sampleKey, TokenExchange, ImageryRequest])
   \<and> CacheWrite sampleKey \<notin> set [CacheRead sampleKey, TokenExchange, ImageryRequest]
   \<and> destructure OptionsUndefined = Inr (JNum 512, JNum 512, JNum 30)
   \<and> cacheLookup 3600000 4000000 [(sampleKey, \<lparr>timestamp = 0, data = samplePayload\<rparr>)]
        (cacheKey sampleNumToString sampleBbox (JNum 512) (JNum 512)) = None
   \<and> fst (getAccessToken sampleTokenEnv initialService) = Inr (Some ''t'')
   \<and> parseMultipartResponse sampleRuntime protoBody (boundaryMatch ''multipart/mixed; boundary=b'')
       = Inl TypeError"
proof -
  have thrown: "parseMultipartResponse sampleRuntime protoBody
                  (boundaryMatch ''multipart/mixed; boundary=b'') = Inl TypeError"
    by (simp add: protoBody_def sampleRuntime_def decoder_eval)
  have run: "getSatelliteData sampleRuntime sampleNumToString 3600000
     (sampleEnv\<lparr>nowLookup := 4000000, imagery := ImageryFailed\<rparr>) sampleBbox OptionsUndefined
     initialService [(sampleKey, \<lparr>timestamp = 0, data = samplePayload\<rparr>)]
     = (Inl RequestFailed, sampleService, [(sampleKey, \<lparr>timestamp = 0, data = samplePayload\<rparr>)],
        [CacheRead sampleKey, TokenExchange, ImageryRequest])"
    by (simp add: fetch_eval)
  have run': "getSatelliteData sampleRuntime sampleNumToString 3600000
     (sampleEnv\<lparr>nowLookup := 4000000,
                imagery := ImageryOk (Some ''multipart/mixed; boundary=b'') protoBody\<rparr>)
     sampleBbox OptionsUndefined
     initialService [(sampleKey, \<lparr>timestamp = 0, data = samplePayload\<rparr>)]
     = (Inl TypeError, sampleService, [(sampleKey, \<lparr>timestamp = 0, data = samplePayload\<rparr>)],
        [CacheRead sampleKey, TokenExchange, ImageryRequest])"
    using thrown by (simp add: fetch_eval)
  from failed_fetch_caches_nothing [OF run, of RequestFailed sampleKey]
       failed_fetch_caches_nothing [OF run', of TypeError sampleKey]
  show ?thesis
    using run run' thrown by (simp add: fetch_eval)
qed

section \<open>The orchestrator: a response without the expected parts\<close>

text \<open>
  C10. When the decoded mapping has none of \<open>truecolor\<close>, \<open>ndvi\<close>, \<open>ndwi\<close> and
  \<open>scl\<close>, the call still succeeds: it returns a payload whose four image fields are
  \<open>null\<close>, stores that payload under the key of the request, and a later call for the same
  request within the maximum age gets the same payload from the cache, with no request to
  the outside.
\<close>

theorem all_null_payload_is_cached:
  assumes opts: "destructure opts = Inr (width, height, cloud)"
    and miss: "cacheLookup CACHE_DURATION (nowLookup env) cache
                 (cacheKey numToString bbox width height) = None"
    and tok: "getAccessToken (tokenEnv env) svc = (Inr tok, svc', evs)"
    and img: "imagery env = ImageryOk (Some contentType) body"
    and dec: "parseMultipartResponse rt body (boundaryMatch contentType) = Inr parts"
    and none: "parts ''truecolor'' = None \<and> parts ''ndvi'' = None \<and> parts ''ndwi'' = None
               \<and> parts ''scl'' = None"
    and p: "p = \<lparr>truecolor = None, ndvi = None, ndwi = None, scl = None,
               metadata = \<lparr>meta_timestamp = isoTime env, meta_bbox = bbox,
                            meta_cloudCoverage = cloud, meta_source = ''Sentinel-2 L2A''\<rparr>,
               analysis = analysisResult env\<rparr>"
    and key: "key = cacheKey numToString bbox width height"
    and cache': "cache' = AList.update key \<lparr>timestamp = nowCache env, data = p\<rparr> cache"
  shows "getSatelliteData rt numToString CACHE_DURATION env bbox opts svc cache
           = (Inr p, svc', cache', CacheRead key # evs @ [ImageryRequest, CacheWrite key])
         \<and> (nowLookup env' - nowCache env < CACHE_DURATION
              \<longrightarrow> getSatelliteData rt numToString CACHE_DURATION env' bbox opts svc' cache'
                  = (Inr p, svc', cache', [CacheRead key]))"
proof -
  have "buildResult env bbox cloud parts = p"
    using none p by (simp add: buildResult_def)
  with opts miss tok img dec key cache'
  have first: "getSatelliteData rt numToString CACHE_DURATION env bbox opts svc cache
           = (Inr p, svc', cache', CacheRead key # evs @ [ImageryRequest, CacheWrite key])"
    by (simp add: getSatelliteData_def Let_def extractBoundary_def)
  have "map_of cache' key = Some \<lparr>timestamp = nowCache env, data = p\<rparr>"
    by (simp add: cache' update_conv')
  then have "nowLookup env' - nowCache env < CACHE_DURATION
      \<Longrightarrow> cacheLookup CACHE_DURATION (nowLookup env') cache' key = Some p"
    by (simp add: cacheLookup_def)
  then have "nowLookup env' - nowCache env < CACHE_DURATION
      \<Longrightarrow> getSatelliteData rt numToString CACHE_DURATION env' bbox opts svc' cache'
                  = (Inr p, svc', cache', [CacheRead key])"
    using opts key by (simp add: getSatelliteData_def Let_def)
  with first show ?thesis by simp
qed

text \<open>
  C10 on a response whose only part is \<open>extra\<close>: the first call stores the all-null
  payload at 1003, and a call at 2000 is served from the cache.
\<close>

theorem all_null_payload_is_cached_witness:
  "parseMultipartResponse sampleRuntime (encodeMultipart ''b'' [(''extra'', ''data'')])
       (boundaryMatch ''multipart/mixed; boundary=b'') = Inr [''extra'' \<mapsto> ''da'']
   \<and> getSatelliteData sampleRuntime sampleNumToString 3600000 sampleEnv sampleBbox OptionsUndefined
       initialService []
     = (Inr samplePayload, sampleService, [(sampleKey, \<lparr>timestamp = 1003, data = samplePayload\<rparr>)],
        [CacheRead sampleKey, TokenExchange, ImageryRequest, CacheWrite sampleKey])
   \<and> (2000::int) - 1003 < 3600000
   \<and> getSatelliteData sampleRuntime sampleNumToString 3600000 (sampleEnv\<lparr>nowLookup := 2000\<rparr>) sampleBbox
       OptionsUndefined sampleService [(sampleKey, \<lparr>timestamp = 1003, data = samplePayload\<rparr>)]
     = (Inr samplePayload, sampleService, [(sampleKey, \<lparr>timestamp = 1003, data = samplePayload\<rparr>)],
        [CacheRead sampleKey])"
proof -
  have opts: "destructure OptionsUndefined = Inr (JNum 512, JNum 512, JNum 30)"
    by (simp add: destructure_def)
  have key: "sampleKey = cacheKey sampleNumToString sampleBbox (JNum 512) (JNum 512)"
    by (simp add: fetch_eval)
  have miss: "cacheLookup 3600000 (nowLookup sampleEnv) []
                (cacheKey sampleNumToString sampleBbox (JNum 512) (JNum 512)) = None"
    by (simp add: cacheLookup_def)
  have tok: "getAccessToken (tokenEnv sampleEnv) initialService
               = (Inr (Some ''t''), sampleService, [TokenExchange])"
    by (simp add: fetch_eval)
  have img: "imagery sampleEnv = ImageryOk (Some ''multipart/mixed; boundary=b'')
               (encodeMultipart ''b'' [(''extra'', ''data'')])"
    by (simp add: sampleEnv_def)
  have dec: "parseMultipartResponse sampleRuntime (encodeMultipart ''b'' [(''extra'', ''data'')])
               (boundaryMatch ''multipart/mixed; boundary=b'') = Inr [''extra'' \<mapsto> ''da'']"
    by (simp add: decoder_eval)
  have none: "[''extra'' \<mapsto> ''da''] ''truecolor'' = None \<and> [''extra'' \<mapsto> ''da''] ''ndvi'' = None
              \<and> [''extra'' \<mapsto> ''da''] ''ndwi'' = None \<and> [''extra'' \<mapsto> ''da''] ''scl'' = None"
    by simp
  have p: "samplePayload = \<lparr>truecolor = None, ndvi = None, ndwi = None, scl = None,
               metadata = \<lparr>meta_timestamp = isoTime sampleEnv, meta_bbox = sampleBbox,
                            meta_cloudCoverage = JNum 30, meta_source = ''Sentinel-2 L2A''\<rparr>,
               analysis = analysisResult sampleEnv\<rparr>"
    by (simp add: samplePayload_def sampleEnv_def)
  have cache': "[(sampleKey, \<lparr>timestamp = 1003, data = samplePayload\<rparr>)]
      = AList.update sampleKey \<lparr>timestamp = nowCache sampleEnv, data = samplePayload\<rparr> []"
    by (simp add: sampleEnv_def)
  from all_null_payload_is_cached
         [OF opts miss tok img dec none p key cache', of "sampleEnv\<lparr>nowLookup := 2000\<rparr>"]
       dec
  show ?thesis by (simp add: sampleEnv_def)
qed

section \<open>The request handler: validation of the bounding box\<close>

text \<open>
  C8, as the claim states it, fails: the array \<open>[10, 10, 5, 5]\<close> has
  \<open>minLon > maxLon\<close> and \<open>minLat > maxLat\<close>, and the handler does not reject it: it
  reads the cache, exchanges a token, calls the imagery endpoint, stores the result and
  answers with status 200.
\<close>

theorem ill_ordered_bbox_is_served:
  "\<not> wellFormedBoundingBox (BboxArray sampleBbox)
   \<and> satelliteDataHandler sampleRuntime sampleNumToString 3600000 sampleEnv
       \<lparr>body_bbox = BboxArray sampleBbox, body_options = OptionsUndefined\<rparr> initialService []
     = (Status200 samplePayload, sampleService,
        [(sampleKey, \<lparr>timestamp = 1003, data = samplePayload\<rparr>)],
        [CacheRead sampleKey, TokenExchange, ImageryRequest, CacheWrite sampleKey])"
  by (simp add: satelliteDataHandler_def wellFormedBoundingBox_def falsy_def isArray_def
        elements_def fetch_eval decoder_eval)

text \<open>
  C8, amended. The handler rejects a request with status 400, before any access to the
  network or the cache and with the service and the cache untouched, exactly when its
  \<open>bbox\<close> is missing, is not an array, or is an array of other than 4 components. It does
  not look at the components: an array of 4 values is passed to \<open>getSatelliteData\<close>
  whatever they are.
\<close>

theorem handler_checks_shape_only:
  "(fst (satelliteDataHandler rt numToString CACHE_DURATION env body svc cache) = Status400
      \<longleftrightarrow> \<not> (\<exists>xs. body_bbox body = BboxArray xs \<and> length xs = 4))
   \<and> (\<not> (\<exists>xs. body_bbox body = BboxArray xs \<and> length xs = 4)
        \<longrightarrow> satelliteDataHandler rt numToString CACHE_DURATION env body svc cache
            = (Status400, svc, cache, []))"
  by (auto simp: satelliteDataHandler_def Let_def falsy_def isArray_def elements_def
           split: bbox_field.splits sum.splits prod.splits)

text \<open>
  The amended C8 on a request with three components, on a service and a cache that hold
  data: status 400, no event, nothing changed.
\<close>

theorem handler_checks_shape_only_witness:
  "\<not> (\<exists>xs. BboxArray [JNum 10, JNum 10, JNum 5] = BboxArray xs \<and> length xs = 4)
   \<and> satelliteDataHandler sampleRuntime sampleNumToString 3600000 sampleEnv
       \<lparr>body_bbox = BboxArray [JNum 10, JNum 10, JNum 5], body_options = OptionsUndefined\<rparr>
       sampleService [(sampleKey, \<lparr>timestamp = 1003, data = samplePayload\<rparr>)]
     = (Status400, sampleService, [(sampleKey, \<lparr>timestamp = 1003, data = samplePayload\<rparr>)], [])"
  using handler_checks_shape_only
          [of sampleRuntime sampleNumToString 3600000 sampleEnv
              "\<lparr>body_bbox = BboxArray [JNum 10, JNum 10, JNum 5], body_options = OptionsUndefined\<rparr>"
              sampleService "[(sampleKey, \<lparr>timestamp = 1003, data = samplePayload\<rparr>)]"]
  by simp


end
